theory Spec2Isabelle
  imports Main "HOL-Library.Word" "HOL-Library.Sublist"
begin

section \<open>The files store: data model\<close>

text \<open>
  A shallow embedding of the class \<open>FilesStore\<close> and of the module functions
  \<open>isBinaryFile\<close> and \<open>convertToBuffer\<close>. Mutation of the store is explicit state
  passing: every method takes the store (\<open>this\<close>) and returns the updated one. An
  \<open>async\<close> method is modelled as one uninterrupted run of its body.
\<close>

type_synonym byte = "8 word"

type_synonym Uint8Array = "byte list"

text \<open>\<open>type Dirent = File | Folder\<close>; the constructor \<open>File\<close> carries \<open>content\<close> and
  \<open>isBinary\<close>.\<close>

datatype Dirent = File string bool | Folder

text \<open>\<open>FileMap = Record<string, Dirent | undefined>\<close>: a key that is missing and a key
  set to \<open>undefined\<close> are both \<open>None\<close>.\<close>

type_synonym FileMap = "string \<rightharpoonup> Dirent"

record UploadedFile =
  id_up :: string
  path_up :: string
  content_up :: string

text \<open>
  \<open>MapStore<FileMap>\<close> is an object of the nanostores library: the map a caller reads
  with \<open>get()\<close> is held in one of its properties, next to the methods of the store.
  \<open>props\<close> lists the names of the object's own enumerable properties (what
  \<open>Object.entries\<close> of the store object enumerates), \<open>store_value\<close> is the map that
  \<open>get()\<close> returns and \<open>setKey\<close> updates.
\<close>

record MapStore =
  props :: "string list"
  store_value :: FileMap

datatype event_type = add_dir | remove_dir | add_file | change | remove_file | update_directory

record PathWatcherEvent =
  ev_type :: event_type
  ev_path :: string
  ev_buffer :: "Uint8Array option"

text \<open>Calls of the container's file system, in the order they are issued.\<close>

datatype fs_call = writeFile string string | mkdir string

text \<open>What a method can throw: the \<open>Error\<close> of \<open>saveFile\<close> for an empty relative path,
  the error of \<open>unreachable\<close>, and an error of the container (opaque).\<close>

datatype error = EINVAL string | Unreachable string | ContainerError string

record WebContainer =
  workdir :: string
  fs_log :: "fs_call list"

text \<open>The rule set of the ignore matcher: \<open>ignore().add(text)\<close> or
  \<open>ignore().add([patterns])\<close>.\<close>

datatype rules = RulesText string | RulesList "string list"

text \<open>
  The collaborators the store calls and the repository does not define, as parameters:
  \<^item> \<open>getEncoding\<close> of istextorbinary, applied to the bytes and the chunk length;
  \<^item> \<open>decode\<close> of the \<open>TextDecoder('utf8', { fatal: true })\<close>, \<open>None\<close> when it throws;
  \<^item> \<open>relative\<close> and \<open>dirname\<close> of \<open>node:path\<close>;
  \<^item> \<open>ignores\<close> of the ignore matcher built from a rule set;
  \<^item> \<open>fs_throws\<close>: whether a call of the container's file system throws, given the calls
    issued before it;
  \<^item> \<open>random_id\<close>: the string made from the \<open>n\<close>-th draw of \<open>Math.random()\<close>.
\<close>

record Env =
  getEncoding :: "Uint8Array \<Rightarrow> nat \<Rightarrow> string option"
  decode :: "Uint8Array \<Rightarrow> string option"
  relative :: "string \<Rightarrow> string \<Rightarrow> string"
  dirname :: "string \<Rightarrow> string"
  ignores :: "rules \<Rightarrow> string \<Rightarrow> bool"
  fs_throws :: "fs_call list \<Rightarrow> fs_call \<Rightarrow> error option"
  random_id :: "nat \<Rightarrow> string"

text \<open>The fields of \<open>FilesStore\<close>; \<open>size_c\<close> is the private counter \<open>#size\<close>, a JavaScript
  number that only ever holds an integer. \<open>draws\<close> counts the draws of \<open>Math.random()\<close>.\<close>

record FilesStore =
  webcontainer :: WebContainer
  size_c :: int
  modifiedFiles :: "string \<rightharpoonup> string"
  files :: MapStore
  uploadedFiles :: "UploadedFile list"
  draws :: nat

section \<open>The reactive map store\<close>

text \<open>\<open>setKey(key, value)\<close> of the store: an \<open>undefined\<close> value removes the key from the
  map, any other value is stored under it. The store's own properties stay as they are.\<close>

definition setKey :: "MapStore \<Rightarrow> string \<Rightarrow> Dirent option \<Rightarrow> MapStore" where
  "setKey store key v = store\<lparr>store_value := (store_value store)(key := v)\<rparr>"

text \<open>\<open>map(initial)\<close> of nanostores: an atom object with the properties \<open>get\<close>, \<open>lc\<close>,
  \<open>listen\<close>, \<open>notify\<close>, \<open>off\<close>, \<open>set\<close>, \<open>subscribe\<close> and \<open>value\<close>, to which \<open>setKey\<close> is
  added.\<close>

definition map_store :: "FileMap \<Rightarrow> MapStore" where
  "map_store initial =
     \<lparr>props = [''get'', ''lc'', ''listen'', ''notify'', ''off'', ''set'', ''subscribe'',
               ''value'', ''setKey''],
      store_value = initial\<rparr>"

text \<open>The store as the constructor leaves it (no hot-reload data).\<close>

definition new_FilesStore :: "WebContainer \<Rightarrow> FilesStore" where
  "new_FilesStore wc =
     \<lparr>webcontainer = wc, size_c = 0, modifiedFiles = Map.empty,
      files = map_store Map.empty, uploadedFiles = [], draws = 0\<rparr>"

definition filesCount :: "FilesStore \<Rightarrow> int" where
  "filesCount this = size_c this"

definition getFile :: "FilesStore \<Rightarrow> string \<Rightarrow> Dirent option" where
  "getFile this filePath =
     (case store_value (files this) filePath of
        Some (File content isBinary) \<Rightarrow> Some (File content isBinary)
      | _ \<Rightarrow> None)"

definition resetFileModifications :: "FilesStore \<Rightarrow> FilesStore" where
  "resetFileModifications this = this\<lparr>modifiedFiles := Map.empty\<rparr>"

section \<open>Binary classification and decoding\<close>

definition convertToBuffer :: "Uint8Array \<Rightarrow> Uint8Array" where
  "convertToBuffer view = view"

definition isBinaryFile :: "Env \<Rightarrow> Uint8Array option \<Rightarrow> bool" where
  "isBinaryFile env buffer =
     (case buffer of
        None \<Rightarrow> False
      | Some b \<Rightarrow> getEncoding env (convertToBuffer b) 100 = Some ''binary'')"

definition decodeFileContent :: "Env \<Rightarrow> Uint8Array option \<Rightarrow> string" where
  "decodeFileContent env buffer =
     (case buffer of
        None \<Rightarrow> []
      | Some b \<Rightarrow>
          if length b = 0 then []
          else (case decode env b of Some s \<Rightarrow> s | None \<Rightarrow> []))"

section \<open>The tree reconciler\<close>

text \<open>\<open>path.replace(/\/+$/g, '')\<close>: the path without its trailing slashes.\<close>

definition sanitizedPath :: "string \<Rightarrow> string" where
  "sanitizedPath p = rev (dropWhile (\<lambda>c. c = CHR ''/'') (rev p))"

text \<open>
  One round of the loop of \<open>#processEventBuffer\<close>. In the \<open>remove_dir\<close> case the loop
  runs over \<open>Object.entries(this.files)\<close>, the properties of the store object.
\<close>

definition processEvent :: "Env \<Rightarrow> FilesStore \<Rightarrow> PathWatcherEvent \<Rightarrow> FilesStore" where
  "processEvent env this ev =
     (let sp = sanitizedPath (ev_path ev) in
      case ev_type ev of
        add_dir \<Rightarrow> this\<lparr>files := setKey (files this) sp (Some Folder)\<rparr>
      | remove_dir \<Rightarrow>
          this\<lparr>files :=
            foldl (\<lambda>store direntPath.
                     if prefix sp direntPath then setKey store direntPath None else store)
                  (setKey (files this) sp None) (props (files this))\<rparr>
      | add_file \<Rightarrow>
          (let this1 = this\<lparr>size_c := size_c this + 1\<rparr>;
               isBinary = isBinaryFile env (ev_buffer ev);
               content = (if \<not> isBinary then decodeFileContent env (ev_buffer ev) else [])
           in this1\<lparr>files := setKey (files this1) sp (Some (File content isBinary))\<rparr>)
      | change \<Rightarrow>
          (let isBinary = isBinaryFile env (ev_buffer ev);
               content = (if \<not> isBinary then decodeFileContent env (ev_buffer ev) else [])
           in this\<lparr>files := setKey (files this) sp (Some (File content isBinary))\<rparr>)
      | remove_file \<Rightarrow>
          (let this1 = this\<lparr>size_c := size_c this - 1\<rparr>
           in this1\<lparr>files := setKey (files this1) sp None\<rparr>)
      | update_directory \<Rightarrow> this)"

text \<open>\<open>#processEventBuffer\<close>: the batches are flattened and the events applied in order.\<close>

definition processEventBuffer :: "Env \<Rightarrow> FilesStore \<Rightarrow> PathWatcherEvent list list \<Rightarrow> FilesStore" where
  "processEventBuffer env this events = foldl (processEvent env) this (concat events)"

section \<open>Direct write\<close>

text \<open>\<open>await webcontainer.fs.f(...)\<close>: the call is issued (and logged); it throws when the
  container says so.\<close>

definition fs_await :: "Env \<Rightarrow> FilesStore \<Rightarrow> fs_call \<Rightarrow> (error + unit) \<times> FilesStore" where
  "fs_await env this call =
     (let wc = webcontainer this in
      (case fs_throws env (fs_log wc) call of Some e \<Rightarrow> Inl e | None \<Rightarrow> Inr (),
       this\<lparr>webcontainer := wc\<lparr>fs_log := fs_log wc @ [call]\<rparr>\<rparr>))"

text \<open>Modelled from the spec: \<open>unreachable\<close> of \<open>~/utils/unreachable\<close> is not among the
  sources. The spec calls it the fatal path of an invariant violation, which aborts the
  operation and is distinct from ordinary errors: it throws, with the message it is given.\<close>

definition unreachable :: "string \<Rightarrow> error" where
  "unreachable message = Unreachable message"

text \<open>
  \<open>saveFile\<close> returns what it throws (\<open>Inl\<close>) or nothing (\<open>Inr ()\<close>), and the store as the
  call leaves it. The \<open>catch\<close> block logs and throws the error again, so every error of the
  \<open>try\<close> block is the error of the call. \<open>!oldContent\<close> holds for \<open>undefined\<close> and for the
  empty string.
\<close>

definition saveFile :: "Env \<Rightarrow> FilesStore \<Rightarrow> string \<Rightarrow> string \<Rightarrow> (error + unit) \<times> FilesStore" where
  "saveFile env this filePath content =
     (let relativePath = relative env (workdir (webcontainer this)) filePath in
      if relativePath = [] then (Inl (EINVAL relativePath), this)
      else
        (let oldContent = (case getFile this filePath of
                             Some (File c _) \<Rightarrow> Some c
                           | _ \<Rightarrow> None)
         in case oldContent of
              None \<Rightarrow> (Inl (unreachable ''Expected content to be defined''), this)
            | Some old \<Rightarrow>
                if old = [] then (Inl (unreachable ''Expected content to be defined''), this)
                else
                  (case fs_await env this (writeFile relativePath content) of
                     (Inl e, this1) \<Rightarrow> (Inl e, this1)
                   | (Inr _, this1) \<Rightarrow>
                       (let this2 = (if modifiedFiles this1 filePath = None
                                     then this1\<lparr>modifiedFiles := (modifiedFiles this1)(filePath \<mapsto> old)\<rparr>
                                     else this1)
                        in (Inr (), this2\<lparr>files := setKey (files this2) filePath
                                                      (Some (File content False))\<rparr>)))))"

section \<open>Bulk import\<close>

text \<open>A handle of the source tree: a file with its name and text, or a directory with its
  name and the entries that \<open>values()\<close> yields, in that order.\<close>

datatype FileSystemHandle =
  FileHandle string string
| DirectoryHandle string "FileSystemHandle list"

fun handle_name :: "FileSystemHandle \<Rightarrow> string" where
  "handle_name (FileHandle n t) = n"
| "handle_name (DirectoryHandle n es) = n"

fun handle_values :: "FileSystemHandle \<Rightarrow> FileSystemHandle list" where
  "handle_values (DirectoryHandle n es) = es"
| "handle_values (FileHandle n t) = []"

text \<open>The path of an entry: \<open>currentPath ? `${currentPath}/${entry.name}` : entry.name\<close>.\<close>

definition entry_path :: "string \<Rightarrow> string \<Rightarrow> string" where
  "entry_path currentPath name = (if currentPath \<noteq> [] then currentPath @ ''/'' @ name else name)"

text \<open>
  \<open>processDirectory\<close> is the loop over the entries of a directory and \<open>processEntry\<close> its
  body. An error of the container ends the import where it is thrown.
\<close>

function (sequential)
  processDirectory :: "Env \<Rightarrow> rules \<Rightarrow> FileSystemHandle list \<Rightarrow> string \<Rightarrow> FilesStore
                        \<Rightarrow> (error + unit) \<times> FilesStore"
  and processEntry :: "Env \<Rightarrow> rules \<Rightarrow> FileSystemHandle \<Rightarrow> string \<Rightarrow> FilesStore
                        \<Rightarrow> (error + unit) \<times> FilesStore"
where
  "processDirectory env ig [] currentPath this = (Inr (), this)"
| "processDirectory env ig (entry # rest) currentPath this =
     (case processEntry env ig entry currentPath this of
        (Inl e, this1) \<Rightarrow> (Inl e, this1)
      | (Inr _, this1) \<Rightarrow> processDirectory env ig rest currentPath this1)"
| "processEntry env ig (FileHandle name content) currentPath this =
     (let entryPath = entry_path currentPath name in
      if ignores env ig entryPath then (Inr (), this)
      else
        (let ident = random_id env (draws this);
             this0 = this\<lparr>draws := draws this + 1\<rparr>;
             dirPath = dirname env entryPath
         in case (if dirPath \<noteq> ''.'' then fs_await env this0 (mkdir dirPath) else (Inr (), this0)) of
              (Inl e, this1) \<Rightarrow> (Inl e, this1)
            | (Inr _, this1) \<Rightarrow>
                (case fs_await env this1 (writeFile entryPath content) of
                   (Inl e, this2) \<Rightarrow> (Inl e, this2)
                 | (Inr _, this2) \<Rightarrow>
                     (Inr (), this2\<lparr>uploadedFiles := uploadedFiles this2 @
                        [\<lparr>id_up = ident, path_up = entryPath, content_up = content\<rparr>]\<rparr>))))"
| "processEntry env ig (DirectoryHandle name entries) currentPath this =
     (let entryPath = entry_path currentPath name in
      if ignores env ig entryPath then (Inr (), this)
      else
        (case fs_await env this (mkdir entryPath) of
           (Inl e, this1) \<Rightarrow> (Inl e, this1)
         | (Inr _, this1) \<Rightarrow> processDirectory env ig entries entryPath this1))"
  by pat_completeness auto
termination
  by (relation "measure (\<lambda>x. case x of
                    Inl (env, ig, es, p, t) \<Rightarrow> size_list size es
                  | Inr (env, ig, e, p, t) \<Rightarrow> size e)") auto

text \<open>The rules used when the root has no readable \<open>.gitignore\<close> file.\<close>

definition default_rules :: rules where
  "default_rules =
     RulesList [''node_modules'', ''.git'', ''dist'', ''build'', ''.cache'', ''*.log'', ''.DS_Store'']"

text \<open>\<open>getFileHandle('.gitignore')\<close> throws when the root has no entry of that name or the
  entry is a directory; the rules are then the default ones.\<close>

definition gitignore_rules :: "FileSystemHandle \<Rightarrow> rules" where
  "gitignore_rules sourceHandle =
     (case find (\<lambda>e. handle_name e = ''.gitignore'') (handle_values sourceHandle) of
        Some (FileHandle n gitignoreContent) \<Rightarrow> RulesText gitignoreContent
      | _ \<Rightarrow> default_rules)"

definition loadFromFileSystem :: "Env \<Rightarrow> FilesStore \<Rightarrow> FileSystemHandle \<Rightarrow> (error + unit) \<times> FilesStore" where
  "loadFromFileSystem env this sourceHandle =
     processDirectory env (gitignore_rules sourceHandle) (handle_values sourceHandle) [] this"

section \<open>A sample environment\<close>

text \<open>
  Concrete collaborators, to run the store on concrete inputs. They are simple stand-ins
  that behave as the real ones do on the inputs used below: the encoding of a buffer is
  binary when one of its first bytes is a control character up to 8; the decoder accepts
  ASCII bytes only; \<open>relative\<close> is right for a path below the directory it starts from;
  \<open>dirname\<close> is right for a path without trailing slash inside some directory; a rule
  \<open>*suffix\<close> matches the paths that end in the suffix and any other rule matches the
  path equal to it; the container never throws.
\<close>

fun sample_lines :: "string \<Rightarrow> string list" where
  "sample_lines [] = [[]]"
| "sample_lines (c # cs) =
     (if c = CHR 0x0A then [] # sample_lines cs
      else (case sample_lines cs of l # ls \<Rightarrow> (c # l) # ls | [] \<Rightarrow> [[c]]))"

definition sample_matches :: "string \<Rightarrow> string \<Rightarrow> bool" where
  "sample_matches pat p =
     (case pat of
        [] \<Rightarrow> False
      | c # suf \<Rightarrow> if c = CHR ''*'' then prefix (rev suf) (rev p) else pat = p)"

definition sample_ignores :: "rules \<Rightarrow> string \<Rightarrow> bool" where
  "sample_ignores rs p =
     list_ex (\<lambda>pat. sample_matches pat p)
       (case rs of RulesText t \<Rightarrow> sample_lines t | RulesList ps \<Rightarrow> ps)"

definition sample_dirname :: "string \<Rightarrow> string" where
  "sample_dirname p =
     (if CHR ''/'' \<in> set p then rev (drop 1 (dropWhile (\<lambda>c. c \<noteq> CHR ''/'') (rev p))) else ''.'')"

definition sample_relative :: "string \<Rightarrow> string \<Rightarrow> string" where
  "sample_relative from to = (if prefix (from @ ''/'') to then drop (length from + 1) to else [])"

definition sample_env :: Env where
  "sample_env =
     \<lparr>getEncoding = (\<lambda>b n. if list_ex (\<lambda>x. x \<le> 8) (take n b) then Some ''binary'' else Some ''utf8''),
      decode = (\<lambda>b. if list_all (\<lambda>x. x < 128) b then Some (map (\<lambda>x. char_of (unat x)) b) else None),
      relative = sample_relative,
      dirname = sample_dirname,
      ignores = sample_ignores,
      fs_throws = (\<lambda>log c. None),
      random_id = (\<lambda>n. replicate (Suc n) CHR ''r'')\<rparr>"

definition sample_container :: WebContainer where
  "sample_container = \<lparr>workdir = ''/work'', fs_log = []\<rparr>"

text \<open>The batch of the directory scenario; the buffers are the bytes of \<open>x\<close> and \<open>y\<close>.\<close>

definition src_batch :: "PathWatcherEvent list" where
  "src_batch =
     [\<lparr>ev_type = add_dir, ev_path = ''/src'', ev_buffer = None\<rparr>,
      \<lparr>ev_type = add_file, ev_path = ''/src/a.ts'', ev_buffer = Some [0x78]\<rparr>,
      \<lparr>ev_type = add_dir, ev_path = ''/src/sub'', ev_buffer = None\<rparr>,
      \<lparr>ev_type = add_file, ev_path = ''/src/sub/b.ts'', ev_buffer = Some [0x79]\<rparr>,
      \<lparr>ev_type = remove_dir, ev_path = ''/src'', ev_buffer = None\<rparr>]"

text \<open>A tree with the folder \<open>/src\<close> and one file in it.\<close>

definition src_tree :: FileMap where
  "src_tree = [''/src'' \<mapsto> Folder, ''/src/a.ts'' \<mapsto> File ''x'' False]"

text \<open>A tree with a text file and an empty file below the work directory of the sample
  container, and the store that holds it.\<close>

definition work_tree :: FileMap where
  "work_tree = [''/work/a.ts'' \<mapsto> File ''old'' False, ''/work/empty.ts'' \<mapsto> File [] False]"

definition work_store :: FilesStore where
  "work_store = (new_FilesStore sample_container)\<lparr>files := map_store work_tree\<rparr>"

text \<open>The sample environment with a container whose every call throws.\<close>

definition failing_env :: Env where
  "failing_env = sample_env\<lparr>fs_throws := (\<lambda>log c. Some (ContainerError ''EIO''))\<rparr>"

text \<open>The source tree of the import scenario: a \<open>.gitignore\<close> with the rule \<open>*.log\<close>, a log
  file and a source file.\<close>

definition log_scenario :: "string \<Rightarrow> string \<Rightarrow> FileSystemHandle" where
  "log_scenario e m =
     DirectoryHandle ''project''
       [FileHandle ''.gitignore'' ''*.log'', FileHandle ''error.log'' e, FileHandle ''main.ts'' m]"

section \<open>What an import adds\<close>

text \<open>The container calls issued and the upload records appended between two stores.\<close>

definition new_calls :: "FilesStore \<Rightarrow> FilesStore \<Rightarrow> fs_call list" where
  "new_calls this this' = drop (length (fs_log (webcontainer this))) (fs_log (webcontainer this'))"

definition new_uploads :: "FilesStore \<Rightarrow> FilesStore \<Rightarrow> UploadedFile list" where
  "new_uploads this this' = drop (length (uploadedFiles this)) (uploadedFiles this')"

text \<open>The paths of the \<open>writeFile\<close> calls of a log.\<close>

fun written_paths :: "fs_call list \<Rightarrow> string list" where
  "written_paths [] = []"
| "written_paths (writeFile p c # cs) = p # written_paths cs"
| "written_paths (mkdir d # cs) = written_paths cs"

text \<open>
  A call respects the rules when the file it writes is not excluded, or the directory it
  creates is not excluded or is the parent (by \<open>dirname\<close>) of a path that is not. A record
  respects them when its path is not excluded.
\<close>

fun call_respects :: "Env \<Rightarrow> rules \<Rightarrow> fs_call \<Rightarrow> bool" where
  "call_respects env ig (writeFile p c) = (\<not> ignores env ig p)"
| "call_respects env ig (mkdir d) =
     (\<not> ignores env ig d \<or> (\<exists>p. \<not> ignores env ig p \<and> d = dirname env p))"

definition upload_respects :: "Env \<Rightarrow> rules \<Rightarrow> UploadedFile \<Rightarrow> bool" where
  "upload_respects env ig u = (\<not> ignores env ig (path_up u))"

text \<open>\<open>this'\<close> extends \<open>this\<close>: its call log and its upload log are those of \<open>this\<close> with
  calls and records added that respect the rules.\<close>

definition extends :: "Env \<Rightarrow> rules \<Rightarrow> FilesStore \<Rightarrow> FilesStore \<Rightarrow> bool" where
  "extends env ig this this' =
     (\<exists>cs us. fs_log (webcontainer this') = fs_log (webcontainer this) @ cs
        \<and> uploadedFiles this' = uploadedFiles this @ us
        \<and> list_all (call_respects env ig) cs \<and> list_all (upload_respects env ig) us)"

section \<open>Classification with the runtime explicit\<close>

text \<open>
  The module creates one decoder, \<open>utf8TextDecoder = new TextDecoder('utf8', { fatal: true })\<close>,
  and every call of \<open>#decodeFileContent\<close> uses it. A \<open>TextDecoder\<close> is an object with state:
  whether its last call was a streaming one (\<open>do_not_flush\<close>), and the state of its decoder
  (the bytes of an unfinished sequence, the byte order mark seen). In this section that
  object, and a state of the encoding library, are part of the world that a
  classification runs in, so that what a classification leaves behind for the next one
  is visible. The decoder is private to the module and only \<open>#decodeFileContent\<close> calls
  it, so the classifications made so far are all that its state can depend on. The
  console, to which a decoding error is logged, is left out.
\<close>

record 'p TextDecoder =
  do_not_flush :: bool
  decoder_state :: 'p

text \<open>
  The two libraries with their state: the state of a new decoder; one run of a decoder
  from a state over an input, streaming or not, with its output (\<open>None\<close> when it throws)
  and the state it leaves; \<open>getEncoding\<close> with a state of its library.
\<close>

record ('p, 'g) Lib =
  decoder_init :: 'p
  decoder_run :: "'p \<Rightarrow> Uint8Array \<Rightarrow> bool \<Rightarrow> string option \<times> 'p"
  getEncoding_run :: "'g \<Rightarrow> Uint8Array \<Rightarrow> nat \<Rightarrow> string option \<times> 'g"

record ('p, 'g) World =
  filesStore :: FilesStore
  utf8TextDecoder :: "'p TextDecoder"
  encoding_lib :: 'g

definition new_TextDecoder :: "('p, 'g) Lib \<Rightarrow> 'p TextDecoder" where
  "new_TextDecoder lib = \<lparr>do_not_flush = False, decoder_state = decoder_init lib\<rparr>"

text \<open>\<open>decode(input, { stream })\<close> of a \<open>TextDecoder\<close>: unless the call before was a streaming
  one, the decoder starts anew; the call then records whether it is a streaming one, also
  when it throws.\<close>

definition TextDecoder_decode ::
    "('p, 'g) Lib \<Rightarrow> 'p TextDecoder \<Rightarrow> Uint8Array \<Rightarrow> bool \<Rightarrow> string option \<times> 'p TextDecoder" where
  "TextDecoder_decode lib d input stream =
     (let p0 = (if do_not_flush d then decoder_state d else decoder_init lib)
      in case decoder_run lib p0 input stream of
           (out, p1) \<Rightarrow> (out, \<lparr>do_not_flush = stream, decoder_state = p1\<rparr>))"

text \<open>The world when the module is loaded and a store constructed.\<close>

definition new_World :: "('p, 'g) Lib \<Rightarrow> FilesStore \<Rightarrow> 'g \<Rightarrow> ('p, 'g) World" where
  "new_World lib this g = \<lparr>filesStore = this, utf8TextDecoder = new_TextDecoder lib, encoding_lib = g\<rparr>"

text \<open>\<open>isBinaryFile\<close> and \<open>#decodeFileContent\<close> in that world. \<open>utf8TextDecoder.decode(buffer)\<close>
  passes no options: the call is not a streaming one.\<close>

definition isBinaryFile_rt ::
    "('p, 'g) Lib \<Rightarrow> ('p, 'g) World \<Rightarrow> Uint8Array option \<Rightarrow> bool \<times> ('p, 'g) World" where
  "isBinaryFile_rt lib w buffer =
     (case buffer of
        None \<Rightarrow> (False, w)
      | Some b \<Rightarrow>
          (case getEncoding_run lib (encoding_lib w) (convertToBuffer b) 100 of
             (enc, g) \<Rightarrow> (enc = Some ''binary'', w\<lparr>encoding_lib := g\<rparr>)))"

definition decodeFileContent_rt ::
    "('p, 'g) Lib \<Rightarrow> ('p, 'g) World \<Rightarrow> Uint8Array option \<Rightarrow> string \<times> ('p, 'g) World" where
  "decodeFileContent_rt lib w buffer =
     (case buffer of
        None \<Rightarrow> ([], w)
      | Some b \<Rightarrow>
          if length b = 0 then ([], w)
          else (case TextDecoder_decode lib (utf8TextDecoder w) b False of
                  (out, d) \<Rightarrow> (case out of Some s \<Rightarrow> s | None \<Rightarrow> [], w\<lparr>utf8TextDecoder := d\<rparr>)))"

text \<open>The classification of a buffer, as the \<open>add_file\<close> and \<open>change\<close> cases of
  \<open>#processEventBuffer\<close> make it: \<open>isBinary\<close>, and the decoded text when the buffer is not
  binary.\<close>

definition classify_rt ::
    "('p, 'g) Lib \<Rightarrow> ('p, 'g) World \<Rightarrow> Uint8Array option \<Rightarrow> (bool \<times> string) \<times> ('p, 'g) World" where
  "classify_rt lib w buffer =
     (case isBinaryFile_rt lib w buffer of
        (isBinary, w1) \<Rightarrow>
          if \<not> isBinary
          then (case decodeFileContent_rt lib w1 buffer of
                  (content, w2) \<Rightarrow> ((isBinary, content), w2))
          else ((isBinary, []), w1))"

text \<open>The world after the buffers of a history have been classified, one after the other.\<close>

definition after_classifying ::
    "('p, 'g) Lib \<Rightarrow> ('p, 'g) World \<Rightarrow> Uint8Array option list \<Rightarrow> ('p, 'g) World" where
  "after_classifying lib w history = foldl (\<lambda>w' b. snd (classify_rt lib w' b)) w history"

text \<open>
  Sample libraries over the sample environment: a decoder that, when streaming, holds
  back the trailing bytes from 128 up for the next call, and an encoding library that
  counts its calls.
\<close>

definition sample_lib :: "(Uint8Array, nat) Lib" where
  "sample_lib =
     \<lparr>decoder_init = [],
      decoder_run = (\<lambda>p input stream.
         if stream
         then (decode sample_env (rev (dropWhile (\<lambda>x. 128 \<le> x) (rev (p @ input)))),
               rev (takeWhile (\<lambda>x. 128 \<le> x) (rev (p @ input))))
         else (decode sample_env (p @ input), [])),
      getEncoding_run = (\<lambda>g b n. (getEncoding sample_env b n, g + 1))\<rparr>"

section \<open>The reconciler: properties\<close>

lemma setKey_value: "store_value (setKey store k v) = (store_value store)(k := v)"
  by (simp add: setKey_def)

text \<open>The loop of \<open>remove_dir\<close> touches no key outside the list it runs over.\<close>

lemma remove_loop_other:
  "k \<notin> set ks \<Longrightarrow>
   store_value (foldl (\<lambda>store direntPath.
       if prefix sp direntPath then setKey store direntPath None else store) store0 ks) k
     = store_value store0 k"
  by (induction ks arbitrary: store0) (auto simp: setKey_value)

text \<open>Hence \<open>remove_dir\<close> changes the key of its path and, at most, keys that are names of
  properties of the store object: every other key of the tree stays as it was.\<close>

lemma remove_dir_frame:
  assumes "k \<noteq> sanitizedPath p" and "k \<notin> set (props (files this))"
  shows "store_value (files (processEvent env this
             \<lparr>ev_type = remove_dir, ev_path = p, ev_buffer = b\<rparr>)) k
           = store_value (files this) k"
  using assms by (simp add: processEvent_def Let_def remove_loop_other setKey_value)

text \<open>
  C1. Removing the directory \<open>/src\<close> from the tree that holds \<open>/src\<close> and \<open>/src/a.ts\<close>
  makes \<open>/src\<close> absent and leaves the file \<open>/src/a.ts\<close>, a key with \<open>/src\<close> as a strict
  prefix, present as it was: the loop meant to remove the descendants runs over the
  properties of the store object, not over the keys of the tree.
\<close>

theorem C1_remove_dir_keeps_descendant:
  "store_value (files (processEventBuffer env ((new_FilesStore wc)\<lparr>files := map_store src_tree\<rparr>)
       [[\<lparr>ev_type = remove_dir, ev_path = ''/src'', ev_buffer = None\<rparr>]])) ''/src'' = None
   \<and> store_value (files (processEventBuffer env ((new_FilesStore wc)\<lparr>files := map_store src_tree\<rparr>)
       [[\<lparr>ev_type = remove_dir, ev_path = ''/src'', ev_buffer = None\<rparr>]])) ''/src/a.ts''
     = Some (File ''x'' False)"
  by (simp add: processEventBuffer_def processEvent_def new_FilesStore_def map_store_def
      src_tree_def setKey_def sanitizedPath_def)

text \<open>
  C2, as the code has it. From the empty tree with counter 0, the batch of the scenario
  leaves the key \<open>/src\<close> absent and the file counter at 2: the two \<open>add_file\<close> events
  count, and \<open>remove_dir\<close> changes no counter.
\<close>

theorem C2_batch_counter:
  "store_value (files (processEventBuffer env (new_FilesStore wc) [src_batch])) ''/src'' = None
   \<and> filesCount (processEventBuffer env (new_FilesStore wc) [src_batch]) = 2"
  by (simp add: processEventBuffer_def src_batch_def processEvent_def new_FilesStore_def
      map_store_def setKey_def sanitizedPath_def filesCount_def Let_def)

text \<open>C2, as the claim states it, fails: after the batch it is not the case that the
  entries under \<open>/src\<close> are absent and the counter is 0.\<close>

theorem C2_counterexample:
  "\<not> (store_value (files (processEventBuffer sample_env (new_FilesStore sample_container)
           [src_batch])) ''/src/a.ts'' = None
      \<and> store_value (files (processEventBuffer sample_env (new_FilesStore sample_container)
           [src_batch])) ''/src/sub'' = None
      \<and> store_value (files (processEventBuffer sample_env (new_FilesStore sample_container)
           [src_batch])) ''/src/sub/b.ts'' = None
      \<and> filesCount (processEventBuffer sample_env (new_FilesStore sample_container)
           [src_batch]) = 0)"
  by (simp add: processEventBuffer_def src_batch_def processEvent_def new_FilesStore_def
      map_store_def setKey_def sanitizedPath_def filesCount_def Let_def)

text \<open>
  C3. From any store, for any path \<open>P\<close> and any buffers, the events \<open>add_file\<close>, \<open>change\<close>,
  \<open>remove_file\<close> on \<open>P\<close>, in this order, leave the key of \<open>P\<close> (the path without trailing
  slashes, as the reconciler addresses it) absent and the file counter at the value it
  had before. \<open>P\<close> itself is absent whenever it has no trailing slash or was absent
  before.
\<close>

theorem C3_add_change_remove:
  "store_value (files (processEventBuffer env this
       [[\<lparr>ev_type = add_file, ev_path = P, ev_buffer = b1\<rparr>,
         \<lparr>ev_type = change, ev_path = P, ev_buffer = b2\<rparr>,
         \<lparr>ev_type = remove_file, ev_path = P, ev_buffer = b3\<rparr>]])) (sanitizedPath P) = None
   \<and> size_c (processEventBuffer env this
       [[\<lparr>ev_type = add_file, ev_path = P, ev_buffer = b1\<rparr>,
         \<lparr>ev_type = change, ev_path = P, ev_buffer = b2\<rparr>,
         \<lparr>ev_type = remove_file, ev_path = P, ev_buffer = b3\<rparr>]]) = size_c this
   \<and> (sanitizedPath P = P \<or> store_value (files this) P = None \<longrightarrow>
        store_value (files (processEventBuffer env this
          [[\<lparr>ev_type = add_file, ev_path = P, ev_buffer = b1\<rparr>,
            \<lparr>ev_type = change, ev_path = P, ev_buffer = b2\<rparr>,
            \<lparr>ev_type = remove_file, ev_path = P, ev_buffer = b3\<rparr>]])) P = None)"
  by (simp add: processEvent_def processEventBuffer_def Let_def setKey_def)

theorem C3_add_change_remove_witness:
  "sanitizedPath ''/src/a.ts'' = ''/src/a.ts''
   \<and> store_value (files (processEventBuffer sample_env
         ((new_FilesStore sample_container)\<lparr>size_c := 1, files := map_store src_tree\<rparr>)
         [[\<lparr>ev_type = add_file, ev_path = ''/src/a.ts'', ev_buffer = Some [0x78]\<rparr>,
           \<lparr>ev_type = change, ev_path = ''/src/a.ts'', ev_buffer = Some [0x79]\<rparr>,
           \<lparr>ev_type = remove_file, ev_path = ''/src/a.ts'', ev_buffer = None\<rparr>]])) ''/src/a.ts''
       = None
   \<and> size_c (processEventBuffer sample_env
         ((new_FilesStore sample_container)\<lparr>size_c := 1, files := map_store src_tree\<rparr>)
         [[\<lparr>ev_type = add_file, ev_path = ''/src/a.ts'', ev_buffer = Some [0x78]\<rparr>,
           \<lparr>ev_type = change, ev_path = ''/src/a.ts'', ev_buffer = Some [0x79]\<rparr>,
           \<lparr>ev_type = remove_file, ev_path = ''/src/a.ts'', ev_buffer = None\<rparr>]]) = 1"
  using C3_add_change_remove [of sample_env
      "(new_FilesStore sample_container)\<lparr>size_c := 1, files := map_store src_tree\<rparr>"
      "''/src/a.ts''" "Some [0x78]" "Some [0x79]" None]
  by (simp add: sanitizedPath_def new_FilesStore_def)

text \<open>
  C10. A \<open>remove_file\<close> event takes one off the file counter whatever the tree holds at
  its path; a single \<open>remove_file\<close> on the store as constructed leaves the counter at -1.
\<close>

theorem C10_remove_file_decrements:
  "size_c (processEvent env this \<lparr>ev_type = remove_file, ev_path = p, ev_buffer = b\<rparr>)
     = size_c this - 1
   \<and> filesCount (processEventBuffer env (new_FilesStore wc)
        [[\<lparr>ev_type = remove_file, ev_path = ''/a.ts'', ev_buffer = None\<rparr>]]) = - 1
   \<and> filesCount (processEventBuffer env (new_FilesStore wc)
        [[\<lparr>ev_type = remove_file, ev_path = ''/a.ts'', ev_buffer = None\<rparr>]]) < 0"
  by (simp add: processEvent_def processEventBuffer_def new_FilesStore_def filesCount_def)

section \<open>Classification: properties\<close>

lemma classify_rt_store: "filesStore (snd (classify_rt lib w buffer)) = filesStore w"
  by (auto simp: classify_rt_def isBinaryFile_rt_def decodeFileContent_rt_def
      split: option.splits prod.splits)

lemma classify_rt_flag:
  "\<not> do_not_flush (utf8TextDecoder w) \<Longrightarrow>
   \<not> do_not_flush (utf8TextDecoder (snd (classify_rt lib w buffer)))"
  by (auto simp: classify_rt_def isBinaryFile_rt_def decodeFileContent_rt_def TextDecoder_decode_def
      Let_def split: option.splits prod.splits)

lemma after_classifying_flag:
  "\<not> do_not_flush (utf8TextDecoder w) \<Longrightarrow>
   \<not> do_not_flush (utf8TextDecoder (after_classifying lib w history))"
  unfolding after_classifying_def
  by (induction history arbitrary: w) (simp_all add: classify_rt_flag)

lemma after_classifying_store: "filesStore (after_classifying lib w history) = filesStore w"
  unfolding after_classifying_def
  by (induction history arbitrary: w) (simp_all add: classify_rt_store)

lemma classify_rt_result:
  assumes "\<not> do_not_flush (utf8TextDecoder w)"
  shows "fst (classify_rt lib w buffer) =
     (case buffer of
        None \<Rightarrow> (False, [])
      | Some b \<Rightarrow>
          (let isBinary = (fst (getEncoding_run lib (encoding_lib w) (convertToBuffer b) 100)
                             = Some ''binary'')
           in (isBinary,
               if isBinary \<or> length b = 0 then []
               else (case fst (decoder_run lib (decoder_init lib) b False) of
                       Some s \<Rightarrow> s | None \<Rightarrow> []))))"
  using assms
  by (auto simp: classify_rt_def isBinaryFile_rt_def decodeFileContent_rt_def TextDecoder_decode_def
      Let_def split: option.splits prod.splits)

text \<open>In a world whose decoder is not in the middle of a stream, the classification is
  the one of \<open>isBinaryFile\<close> and \<open>decodeFileContent\<close> over an environment that gives the
  results of the libraries.\<close>

lemma classify_rt_pure:
  assumes "\<not> do_not_flush (utf8TextDecoder w)"
    and "\<forall>g b n. fst (getEncoding_run lib g b n) = getEncoding env b n"
    and "\<forall>b. fst (decoder_run lib (decoder_init lib) b False) = decode env b"
  shows "fst (classify_rt lib w buffer)
           = (isBinaryFile env buffer,
              if \<not> isBinaryFile env buffer then decodeFileContent env buffer else [])"
  using assms
  by (simp add: classify_rt_result isBinaryFile_def decodeFileContent_def Let_def
      split: option.splits)

text \<open>The state of the shared decoder matters: on a decoder left in the middle of a stream
  the same buffer classifies differently. No history of classifications leaves the decoder
  so (\<open>after_classifying_flag\<close>).\<close>

lemma classify_rt_mid_stream:
  "fst (classify_rt sample_lib
     \<lparr>filesStore = work_store, utf8TextDecoder = \<lparr>do_not_flush = True, decoder_state = [0xC3]\<rparr>, encoding_lib = 0\<rparr>
     (Some [0x78])) = (False, [])
  \<and> fst (classify_rt sample_lib (new_World sample_lib work_store 0) (Some [0x78])) = (False, ''x'')"
proof -
  have c: "char_of (120::nat) = CHR ''x''" by code_simp
  show ?thesis
    by (simp add: classify_rt_def isBinaryFile_rt_def decodeFileContent_rt_def TextDecoder_decode_def
        Let_def sample_lib_def sample_env_def new_World_def new_TextDecoder_def convertToBuffer_def c)
qed

text \<open>
  C6. Take the world as it is after any history of classifications since the module
  was loaded, with any store and any state of the encoding library at the start. If the
  result of \<open>getEncoding\<close> does not depend on the state of its library, then the
  classification of a buffer (absent or not), \<open>isBinary\<close> and text, is the same after any two
  such histories: no call is a streaming one, so the shared decoder starts anew in each.
  A classification, and any history of them, leaves the store as it was.
\<close>

theorem C6_classification_history_independent:
  assumes "\<forall>g g' b n. fst (getEncoding_run lib g b n) = fst (getEncoding_run lib g' b n)"
  shows "fst (classify_rt lib (after_classifying lib (new_World lib this g) history) buffer)
           = fst (classify_rt lib (after_classifying lib (new_World lib this' g') history') buffer)
    \<and> filesStore (snd (classify_rt lib w buffer)) = filesStore w
    \<and> filesStore (after_classifying lib w history) = filesStore w"
proof -
  let ?w1 = "after_classifying lib (new_World lib this g) history"
  let ?w2 = "after_classifying lib (new_World lib this' g') history'"
  have f1: "\<not> do_not_flush (utf8TextDecoder ?w1)"
    by (rule after_classifying_flag) (simp add: new_World_def new_TextDecoder_def)
  have f2: "\<not> do_not_flush (utf8TextDecoder ?w2)"
    by (rule after_classifying_flag) (simp add: new_World_def new_TextDecoder_def)
  have "fst (classify_rt lib ?w1 buffer) = fst (classify_rt lib ?w2 buffer)"
  proof (cases buffer)
    case None
    then show ?thesis by (simp add: classify_rt_result [OF f1] classify_rt_result [OF f2])
  next
    case (Some b)
    from assms have "fst (getEncoding_run lib (encoding_lib ?w1) (convertToBuffer b) 100)
        = fst (getEncoding_run lib (encoding_lib ?w2) (convertToBuffer b) 100)"
      by blast
    with Some show ?thesis
      by (simp add: classify_rt_result [OF f1] classify_rt_result [OF f2])
  qed
  then show ?thesis by (simp add: classify_rt_store after_classifying_store)
qed

theorem C6_classification_history_independent_witness:
  "(\<forall>g g' b n. fst (getEncoding_run sample_lib g b n) = fst (getEncoding_run sample_lib g' b n))
   \<and> fst (classify_rt sample_lib
        (after_classifying sample_lib (new_World sample_lib work_store 0) [Some [0xFF], None, Some [0x78]])
        (Some [0x79])) = (False, ''y'')
   \<and> fst (classify_rt sample_lib
        (after_classifying sample_lib (new_World sample_lib (new_FilesStore sample_container) 7) [])
        (Some [0x79])) = (False, ''y'')"
proof -
  have h: "\<forall>g g' b n. fst (getEncoding_run sample_lib g b n) = fst (getEncoding_run sample_lib g' b n)"
    by (simp add: sample_lib_def)
  have c: "char_of (121::nat) = CHR ''y''" by code_simp
  have e: "fst (classify_rt sample_lib
        (after_classifying sample_lib (new_World sample_lib (new_FilesStore sample_container) 7) [])
        (Some [0x79])) = (False, ''y'')"
    by (simp add: c after_classifying_def classify_rt_def isBinaryFile_rt_def decodeFileContent_rt_def
        TextDecoder_decode_def Let_def sample_lib_def sample_env_def new_World_def
        new_TextDecoder_def convertToBuffer_def)
  from C6_classification_history_independent [OF h, of work_store 0 "[Some [0xFF], None, Some [0x78]]" "Some [0x79]"
      "new_FilesStore sample_container" 7 "[]"] h e
  show ?thesis by simp
qed

text \<open>
  C7. An absent buffer is not binary and decodes to the empty string. A buffer of
  length zero decodes to the empty string, and is not binary unless the encoding
  library says so of the empty buffer (the store has no check of its own for it). A
  buffer that the strict UTF-8 decoder rejects decodes to the empty string:
  \<open>decodeFileContent\<close> returns a string on every input.
\<close>

theorem C7_absent_empty_undecodable:
  "isBinaryFile env None = False
   \<and> decodeFileContent env None = []
   \<and> decodeFileContent env (Some []) = []
   \<and> (getEncoding env [] 100 \<noteq> Some ''binary'' \<longrightarrow> isBinaryFile env (Some []) = False)
   \<and> (decode env b = None \<longrightarrow> decodeFileContent env (Some b) = [])"
  by (simp add: isBinaryFile_def decodeFileContent_def convertToBuffer_def)

theorem C7_absent_empty_undecodable_witness:
  "getEncoding sample_env [] 100 \<noteq> Some ''binary''
   \<and> decode sample_env [0xFF] = None
   \<and> isBinaryFile sample_env (Some []) = False
   \<and> decodeFileContent sample_env (Some [0xFF]) = []"
  using C7_absent_empty_undecodable [of sample_env "[0xFF]"]
  by (simp add: sample_env_def)

section \<open>Direct write: properties\<close>

lemma saveFile_success:
  assumes "store_value (files this) P = Some (File old b)" and "old \<noteq> []"
    and "relative env (workdir (webcontainer this)) P \<noteq> []"
    and "fs_throws env (fs_log (webcontainer this))
           (writeFile (relative env (workdir (webcontainer this)) P) new) = None"
  shows "saveFile env this P new =
     (Inr (),
      this\<lparr>webcontainer := (webcontainer this)\<lparr>fs_log := fs_log (webcontainer this) @
               [writeFile (relative env (workdir (webcontainer this)) P) new]\<rparr>,
           modifiedFiles := (if modifiedFiles this P = None then (modifiedFiles this)(P \<mapsto> old)
                             else modifiedFiles this),
           files := setKey (files this) P (Some (File new False))\<rparr>)"
  using assms by (simp add: saveFile_def getFile_def fs_await_def Let_def)

lemma saveFile_ok_cases:
  assumes "fst (saveFile env this P new) = Inr ()"
  shows "\<exists>old b. store_value (files this) P = Some (File old b) \<and> old \<noteq> []
     \<and> relative env (workdir (webcontainer this)) P \<noteq> []
     \<and> fs_throws env (fs_log (webcontainer this))
           (writeFile (relative env (workdir (webcontainer this)) P) new) = None"
  using assms
  by (auto simp: saveFile_def getFile_def fs_await_def Let_def unreachable_def
      split: if_splits option.splits Dirent.splits)

text \<open>
  C4. Let \<open>P\<close> hold a file with non-empty content \<open>old\<close> and no recorded original. A
  \<open>saveFile(P, new)\<close> that succeeds records \<open>old\<close> as the original of \<open>P\<close>, sets the tree
  entry of \<open>P\<close> to the file \<open>new\<close> with \<open>isBinary\<close> false, and adds exactly one call to the
  container's log, the write of \<open>new\<close> to the relative path. A second \<open>saveFile(P, newer)\<close>
  that succeeds leaves the recorded original at \<open>old\<close>.
\<close>

theorem C4_saveFile_records_original_once:
  assumes "store_value (files this) P = Some (File old b)" and "old \<noteq> []"
    and "modifiedFiles this P = None"
    and "fst (saveFile env this P new) = Inr ()"
  shows "modifiedFiles (snd (saveFile env this P new)) P = Some old
    \<and> store_value (files (snd (saveFile env this P new))) P = Some (File new False)
    \<and> fs_log (webcontainer (snd (saveFile env this P new)))
        = fs_log (webcontainer this) @ [writeFile (relative env (workdir (webcontainer this)) P) new]
    \<and> (fst (saveFile env (snd (saveFile env this P new)) P newer) = Inr () \<longrightarrow>
         modifiedFiles (snd (saveFile env (snd (saveFile env this P new)) P newer)) P = Some old)"
proof -
  from saveFile_ok_cases [OF assms(4)] assms(1)
  have rel: "relative env (workdir (webcontainer this)) P \<noteq> []"
    and ok: "fs_throws env (fs_log (webcontainer this))
           (writeFile (relative env (workdir (webcontainer this)) P) new) = None"
    by auto
  note s1 = saveFile_success [OF assms(1) assms(2) rel ok]
  have first: "modifiedFiles (snd (saveFile env this P new)) P = Some old"
    "store_value (files (snd (saveFile env this P new))) P = Some (File new False)"
    "fs_log (webcontainer (snd (saveFile env this P new)))
        = fs_log (webcontainer this) @ [writeFile (relative env (workdir (webcontainer this)) P) new]"
    using assms(3) by (simp_all add: s1 setKey_def)
  have second: "modifiedFiles (snd (saveFile env (snd (saveFile env this P new)) P newer)) P = Some old"
    if h: "fst (saveFile env (snd (saveFile env this P new)) P newer) = Inr ()"
  proof -
    let ?t = "snd (saveFile env this P new)"
    from saveFile_ok_cases [OF h] first(2)
    have n: "new \<noteq> []" and rel2: "relative env (workdir (webcontainer ?t)) P \<noteq> []"
      and ok2: "fs_throws env (fs_log (webcontainer ?t))
           (writeFile (relative env (workdir (webcontainer ?t)) P) newer) = None"
      by auto
    show ?thesis
      using first(1) by (simp add: saveFile_success [OF first(2) n rel2 ok2])
  qed
  from first second show ?thesis by blast
qed

theorem C4_saveFile_records_original_once_witness:
  "store_value (files work_store) ''/work/a.ts'' = Some (File ''old'' False)
   \<and> modifiedFiles work_store ''/work/a.ts'' = None
   \<and> fst (saveFile sample_env work_store ''/work/a.ts'' ''new'') = Inr ()
   \<and> modifiedFiles (snd (saveFile sample_env work_store ''/work/a.ts'' ''new'')) ''/work/a.ts'' = Some ''old''
   \<and> store_value (files (snd (saveFile sample_env work_store ''/work/a.ts'' ''new''))) ''/work/a.ts''
       = Some (File ''new'' False)
   \<and> fs_log (webcontainer (snd (saveFile sample_env work_store ''/work/a.ts'' ''new'')))
       = [writeFile ''a.ts'' ''new'']
   \<and> fst (saveFile sample_env (snd (saveFile sample_env work_store ''/work/a.ts'' ''new''))
            ''/work/a.ts'' ''newer'') = Inr ()
   \<and> modifiedFiles (snd (saveFile sample_env (snd (saveFile sample_env work_store ''/work/a.ts'' ''new''))
            ''/work/a.ts'' ''newer'')) ''/work/a.ts'' = Some ''old''"
proof -
  have h1: "store_value (files work_store) ''/work/a.ts'' = Some (File ''old'' False)"
    by (simp add: work_store_def work_tree_def map_store_def)
  have h2: "''old'' \<noteq> []" by simp
  have h3: "modifiedFiles work_store ''/work/a.ts'' = None"
    by (simp add: work_store_def new_FilesStore_def)
  have h4: "fst (saveFile sample_env work_store ''/work/a.ts'' ''new'') = Inr ()"
    by (simp add: saveFile_def getFile_def fs_await_def Let_def work_store_def work_tree_def
        map_store_def new_FilesStore_def sample_env_def sample_relative_def sample_container_def)
  have h5: "fst (saveFile sample_env (snd (saveFile sample_env work_store ''/work/a.ts'' ''new''))
            ''/work/a.ts'' ''newer'') = Inr ()"
    by (simp add: saveFile_def getFile_def fs_await_def Let_def work_store_def work_tree_def
        map_store_def new_FilesStore_def sample_env_def sample_relative_def sample_container_def
        setKey_def)
  have w: "relative sample_env (workdir (webcontainer work_store)) ''/work/a.ts'' = ''a.ts''"
    "fs_log (webcontainer work_store) = []"
    by (simp_all add: work_store_def new_FilesStore_def sample_env_def sample_relative_def
        sample_container_def)
  from C4_saveFile_records_original_once [OF h1 h2 h3 h4, of "''newer''"] h1 h3 h4 h5 w show ?thesis by simp
qed

text \<open>
  C5. When \<open>P\<close> holds a file whose content is the empty string (and \<open>P\<close> resolves to a
  relative path that is not empty, so that the check of the path passes), \<open>saveFile(P, new)\<close>
  throws the error of \<open>unreachable\<close> and leaves the whole store as it was: no call to the
  container, the tree entry and the ledger unchanged.
\<close>

theorem C5_saveFile_empty_content_unreachable:
  assumes "store_value (files this) P = Some (File [] b)"
    and "relative env (workdir (webcontainer this)) P \<noteq> []"
  shows "saveFile env this P new = (Inl (unreachable ''Expected content to be defined''), this)"
  using assms by (simp add: saveFile_def getFile_def Let_def)

theorem C5_saveFile_empty_content_unreachable_witness:
  "store_value (files work_store) ''/work/empty.ts'' = Some (File [] False)
   \<and> relative sample_env (workdir (webcontainer work_store)) ''/work/empty.ts'' \<noteq> []
   \<and> saveFile sample_env work_store ''/work/empty.ts'' ''new''
       = (Inl (Unreachable ''Expected content to be defined''), work_store)"
proof -
  have h1: "store_value (files work_store) ''/work/empty.ts'' = Some (File [] False)"
    by (simp add: work_store_def work_tree_def map_store_def)
  have h2: "relative sample_env (workdir (webcontainer work_store)) ''/work/empty.ts'' \<noteq> []"
    by (simp add: work_store_def new_FilesStore_def sample_env_def sample_relative_def
        sample_container_def)
  from C5_saveFile_empty_content_unreachable [OF h1 h2, of "''new''"] h1 h2 show ?thesis by (simp add: unreachable_def)
qed

text \<open>
  C9. When \<open>P\<close> holds a file with non-empty content and the container's \<open>writeFile\<close> throws
  \<open>e\<close>, \<open>saveFile\<close> throws \<open>e\<close>, and the tree and the ledger are as before the call, at \<open>P\<close>
  and everywhere else.
\<close>

theorem C9_saveFile_write_failure:
  assumes "store_value (files this) P = Some (File old b)" and "old \<noteq> []"
    and "relative env (workdir (webcontainer this)) P \<noteq> []"
    and "fs_throws env (fs_log (webcontainer this))
           (writeFile (relative env (workdir (webcontainer this)) P) content) = Some e"
  shows "fst (saveFile env this P content) = Inl e
    \<and> files (snd (saveFile env this P content)) = files this
    \<and> modifiedFiles (snd (saveFile env this P content)) = modifiedFiles this
    \<and> store_value (files (snd (saveFile env this P content))) P = Some (File old b)
    \<and> modifiedFiles (snd (saveFile env this P content)) P = modifiedFiles this P"
  using assms by (simp add: saveFile_def getFile_def fs_await_def Let_def)

theorem C9_saveFile_write_failure_witness:
  "store_value (files work_store) ''/work/a.ts'' = Some (File ''old'' False)
   \<and> fs_throws failing_env (fs_log (webcontainer work_store)) (writeFile ''a.ts'' ''new'')
       = Some (ContainerError ''EIO'')
   \<and> fst (saveFile failing_env work_store ''/work/a.ts'' ''new'') = Inl (ContainerError ''EIO'')
   \<and> store_value (files (snd (saveFile failing_env work_store ''/work/a.ts'' ''new''))) ''/work/a.ts''
       = Some (File ''old'' False)
   \<and> modifiedFiles (snd (saveFile failing_env work_store ''/work/a.ts'' ''new'')) ''/work/a.ts'' = None"
proof -
  have h1: "store_value (files work_store) ''/work/a.ts'' = Some (File ''old'' False)"
    by (simp add: work_store_def work_tree_def map_store_def)
  have h2: "''old'' \<noteq> []" by simp
  have w: "relative failing_env (workdir (webcontainer work_store)) ''/work/a.ts'' = ''a.ts''"
    by (simp add: work_store_def new_FilesStore_def failing_env_def sample_env_def
        sample_relative_def sample_container_def)
  have h3: "relative failing_env (workdir (webcontainer work_store)) ''/work/a.ts'' \<noteq> []"
    by (simp add: w)
  have h4: "fs_throws failing_env (fs_log (webcontainer work_store))
      (writeFile (relative failing_env (workdir (webcontainer work_store)) ''/work/a.ts'') ''new'')
       = Some (ContainerError ''EIO'')"
    by (simp add: failing_env_def)
  have h5: "modifiedFiles work_store ''/work/a.ts'' = None"
    by (simp add: work_store_def new_FilesStore_def)
  from C9_saveFile_write_failure [OF h1 h2 h3 h4] h1 h4 h5 w show ?thesis by simp
qed

section \<open>Bulk import: properties\<close>

lemma extends_refl: "extends env ig this this"
  by (simp add: extends_def)

lemma extends_trans:
  "extends env ig a b \<Longrightarrow> extends env ig b c \<Longrightarrow> extends env ig a c"
  unfolding extends_def by clarsimp

lemma extends_await:
  "call_respects env ig call \<Longrightarrow> extends env ig this (snd (fs_await env this call))"
  by (simp add: extends_def fs_await_def Let_def)

lemma extends_draw: "extends env ig this (this\<lparr>draws := n\<rparr>)"
  by (simp add: extends_def)

lemma extends_upload:
  "upload_respects env ig u \<Longrightarrow> extends env ig this (this\<lparr>uploadedFiles := uploadedFiles this @ [u]\<rparr>)"
  by (simp add: extends_def)

lemma processEntry_file_extends:
  "extends env ig this (snd (processEntry env ig (FileHandle name content) currentPath this))"
proof (cases "ignores env ig (entry_path currentPath name)")
  case True
  then show ?thesis by (simp add: extends_refl)
next
  case False
  define entryPath where "entryPath = entry_path currentPath name"
  define this0 where "this0 = this\<lparr>draws := draws this + 1\<rparr>"
  define u where "u = \<lparr>id_up = random_id env (draws this), path_up = entryPath, content_up = content\<rparr>"
  define r1 where "r1 = (if dirname env entryPath \<noteq> ''.''
      then fs_await env this0 (mkdir (dirname env entryPath)) else (Inr (), this0))"
  define r2 where "r2 = fs_await env (snd r1) (writeFile entryPath content)"
  have ni: "\<not> ignores env ig entryPath" using False by (simp add: entryPath_def)
  have eq: "processEntry env ig (FileHandle name content) currentPath this
      = (case r1 of
           (Inl e, this1) \<Rightarrow> (Inl e, this1)
         | (Inr x, this1) \<Rightarrow>
             (case fs_await env this1 (writeFile entryPath content) of
                (Inl e, this2) \<Rightarrow> (Inl e, this2)
              | (Inr y, this2) \<Rightarrow> (Inr (), this2\<lparr>uploadedFiles := uploadedFiles this2 @ [u]\<rparr>)))"
    unfolding r1_def u_def this0_def entryPath_def
    by (simp only: processEntry.simps Let_def False if_False)
  have e0: "extends env ig this this0"
    by (simp add: this0_def extends_draw)
  have "call_respects env ig (mkdir (dirname env entryPath))"
    using ni by auto
  from extends_await [OF this, of this0] have e1: "extends env ig this0 (snd r1)"
    by (simp add: r1_def extends_refl)
  have "call_respects env ig (writeFile entryPath content)"
    using ni by simp
  from extends_await [OF this, of "snd r1"] have e2: "extends env ig (snd r1) (snd r2)"
    by (simp add: r2_def)
  have "upload_respects env ig u"
    using ni by (simp add: upload_respects_def u_def)
  from extends_upload [OF this, of "snd r2"]
  have e3: "extends env ig (snd r2) ((snd r2)\<lparr>uploadedFiles := uploadedFiles (snd r2) @ [u]\<rparr>)" .
  have e01: "extends env ig this (snd r1)" by (rule extends_trans [OF e0 e1])
  have e02: "extends env ig this (snd r2)" by (rule extends_trans [OF e01 e2])
  have e03: "extends env ig this ((snd r2)\<lparr>uploadedFiles := uploadedFiles (snd r2) @ [u]\<rparr>)"
    by (rule extends_trans [OF e02 e3])
  show ?thesis
  proof (cases r1)
    case p1: (Pair a this1)
    show ?thesis
    proof (cases a)
      case (Inl e)
      with p1 e01 show ?thesis unfolding eq by simp
    next
      case (Inr x)
      show ?thesis
      proof (cases r2)
        case p2: (Pair c this2)
        with p1 Inr e02 e03 show ?thesis
          unfolding eq by (cases c) (simp_all add: r2_def)
      qed
    qed
  qed
qed

lemma import_extends:
  "extends env ig this (snd (processDirectory env ig es cur this))"
  "extends env ig this (snd (processEntry env ig e cur this))"
proof (induction env ig es cur this and env ig e cur this rule: processDirectory_processEntry.induct)
  case (1 env ig currentPath this)
  then show ?case by (simp add: extends_refl)
next
  case (2 env ig entry rest currentPath this)
  show ?case
  proof (cases "processEntry env ig entry currentPath this")
    case (Pair r this1)
    with 2 show ?thesis
      by (cases r) (auto intro: extends_trans)
  qed
next
  case (3 env ig name content currentPath this)
  show ?case by (rule processEntry_file_extends)
next
  case (4 env ig name entries currentPath this)
  define entryPath where "entryPath = entry_path currentPath name"
  show ?case
  proof (cases "ignores env ig entryPath")
    case True
    then show ?thesis by (simp add: entryPath_def extends_refl)
  next
    case False
    have e1: "extends env ig this (snd (fs_await env this (mkdir entryPath)))"
      using False by (intro extends_await) simp
    show ?thesis
    proof (cases "fs_await env this (mkdir entryPath)")
      case (Pair r this1)
      show ?thesis
      proof (cases r)
        case (Inl a)
        with Pair False e1 show ?thesis by (simp add: entryPath_def [symmetric])
      next
        case (Inr b)
        with Pair False e1 4 [OF entryPath_def False Pair [symmetric] Inr] show ?thesis
          by (auto simp add: entryPath_def [symmetric] intro: extends_trans)
      qed
    qed
  qed
qed

lemma written_paths_respects:
  "list_all (call_respects env ig) cs \<Longrightarrow> p \<in> set (written_paths cs) \<Longrightarrow> \<not> ignores env ig p"
  by (induction cs rule: written_paths.induct) auto

lemma extends_new:
  assumes "extends env ig this this'"
  shows "prefix (fs_log (webcontainer this)) (fs_log (webcontainer this'))"
    and "prefix (uploadedFiles this) (uploadedFiles this')"
    and "list_all (call_respects env ig) (new_calls this this')"
    and "list_all (upload_respects env ig) (new_uploads this this')"
  using assms by (auto simp: extends_def new_calls_def new_uploads_def)

lemma fs_await_ok:
  "fs_throws env (fs_log (webcontainer this)) call = None \<Longrightarrow>
   fs_await env this call =
     (Inr (), this\<lparr>webcontainer := (webcontainer this)\<lparr>fs_log := fs_log (webcontainer this) @ [call]\<rparr>\<rparr>)"
  by (simp add: fs_await_def Let_def)

lemma processEntry_file_ok:
  assumes "\<forall>log c. fs_throws env log c = None"
  shows "processEntry env ig (FileHandle name content) cur this =
     (Inr (),
      if ignores env ig (entry_path cur name) then this
      else this\<lparr>draws := draws this + 1,
             webcontainer := (webcontainer this)\<lparr>fs_log := fs_log (webcontainer this) @
               (if dirname env (entry_path cur name) \<noteq> ''.''
                then [mkdir (dirname env (entry_path cur name))] else []) @
               [writeFile (entry_path cur name) content]\<rparr>,
             uploadedFiles := uploadedFiles this @
               [\<lparr>id_up = random_id env (draws this), path_up = entry_path cur name,
                 content_up = content\<rparr>]\<rparr>)"
  using assms by (simp add: fs_await_ok Let_def)

lemma log_scenario_import:
  assumes ig: "ignores env (RulesText ''*.log'') ''error.log''"
    and ni: "\<not> ignores env (RulesText ''*.log'') ''main.ts''"
    and ok: "\<forall>log c. fs_throws env log c = None"
  shows "fst (loadFromFileSystem env this (log_scenario e m)) = Inr ()"
    and "writeFile ''main.ts'' m \<in> set (new_calls this (snd (loadFromFileSystem env this (log_scenario e m))))"
    and "\<exists>u \<in> set (new_uploads this (snd (loadFromFileSystem env this (log_scenario e m)))).
           path_up u = ''main.ts'' \<and> content_up u = m"
  using ig ni
  by (simp_all add: loadFromFileSystem_def log_scenario_def gitignore_rules_def
      processEntry_file_ok [OF ok] entry_path_def new_calls_def new_uploads_def
      del: processEntry.simps)

lemma gitignore_rules_file:
  "find (\<lambda>e. handle_name e = ''.gitignore'') (handle_values sourceHandle) = Some (FileHandle n g)
   \<Longrightarrow> gitignore_rules sourceHandle = RulesText g"
  by (simp add: gitignore_rules_def)

lemma upload_paths_respect:
  "list_all (upload_respects env ig) us \<Longrightarrow> p \<in> path_up ` set us \<Longrightarrow> \<not> ignores env ig p"
  by (auto simp: list_all_iff upload_respects_def)

lemma load_extends:
  "extends env (gitignore_rules sourceHandle) this (snd (loadFromFileSystem env this sourceHandle))"
  by (simp add: loadFromFileSystem_def import_extends(1))

text \<open>
  C8. When the root of the source tree has a file \<open>.gitignore\<close> with text \<open>g\<close>, the import
  is the walk of the tree under the rules \<open>g\<close>. It only adds to the container's call log
  and to the upload log, every call it adds respects the rules, and no path that the
  rules exclude is the path of a \<open>writeFile\<close> call or of an upload record it adds. In
  particular, for the tree with \<open>.gitignore\<close> = \<open>*.log\<close>, \<open>error.log\<close> and \<open>main.ts\<close>: when
  the matcher excludes \<open>error.log\<close> and not \<open>main.ts\<close> under that rule, and the container
  does not throw, the import succeeds, writes and records \<open>main.ts\<close> with its text, and
  neither writes nor records \<open>error.log\<close>.
\<close>

theorem C8_gitignore_rules_exclude:
  assumes "find (\<lambda>e. handle_name e = ''.gitignore'') (handle_values sourceHandle)
             = Some (FileHandle n g)"
  shows "loadFromFileSystem env this sourceHandle
           = processDirectory env (RulesText g) (handle_values sourceHandle) [] this
    \<and> prefix (fs_log (webcontainer this))
         (fs_log (webcontainer (snd (loadFromFileSystem env this sourceHandle))))
    \<and> prefix (uploadedFiles this) (uploadedFiles (snd (loadFromFileSystem env this sourceHandle)))
    \<and> list_all (call_respects env (RulesText g))
         (new_calls this (snd (loadFromFileSystem env this sourceHandle)))
    \<and> (\<forall>p. ignores env (RulesText g) p \<longrightarrow>
          p \<notin> set (written_paths (new_calls this (snd (loadFromFileSystem env this sourceHandle))))
          \<and> p \<notin> path_up ` set (new_uploads this (snd (loadFromFileSystem env this sourceHandle))))
    \<and> (ignores env (RulesText ''*.log'') ''error.log''
        \<and> \<not> ignores env (RulesText ''*.log'') ''main.ts''
        \<and> (\<forall>log c. fs_throws env log c = None) \<longrightarrow>
          fst (loadFromFileSystem env this (log_scenario e m)) = Inr ()
          \<and> writeFile ''main.ts'' m
               \<in> set (new_calls this (snd (loadFromFileSystem env this (log_scenario e m))))
          \<and> (\<exists>u \<in> set (new_uploads this (snd (loadFromFileSystem env this (log_scenario e m)))).
                path_up u = ''main.ts'' \<and> content_up u = m)
          \<and> ''error.log'' \<notin> set (written_paths
                (new_calls this (snd (loadFromFileSystem env this (log_scenario e m)))))
          \<and> ''error.log'' \<notin> path_up ` set
                (new_uploads this (snd (loadFromFileSystem env this (log_scenario e m)))))"
proof -
  let ?t = "snd (loadFromFileSystem env this sourceHandle)"
  have r: "gitignore_rules sourceHandle = RulesText g"
    by (rule gitignore_rules_file [OF assms])
  have ext: "extends env (RulesText g) this ?t"
    using load_extends [of env sourceHandle this] by (simp add: r)
  note n = extends_new [OF ext]
  have a: "loadFromFileSystem env this sourceHandle
           = processDirectory env (RulesText g) (handle_values sourceHandle) [] this"
    by (simp add: loadFromFileSystem_def r)
  have b: "\<forall>p. ignores env (RulesText g) p \<longrightarrow>
          p \<notin> set (written_paths (new_calls this ?t)) \<and> p \<notin> path_up ` set (new_uploads this ?t)"
    using written_paths_respects [OF n(3)] upload_paths_respect [OF n(4)] by blast
  have c: "fst (loadFromFileSystem env this (log_scenario e m)) = Inr ()
          \<and> writeFile ''main.ts'' m
               \<in> set (new_calls this (snd (loadFromFileSystem env this (log_scenario e m))))
          \<and> (\<exists>u \<in> set (new_uploads this (snd (loadFromFileSystem env this (log_scenario e m)))).
                path_up u = ''main.ts'' \<and> content_up u = m)
          \<and> ''error.log'' \<notin> set (written_paths
                (new_calls this (snd (loadFromFileSystem env this (log_scenario e m)))))
          \<and> ''error.log'' \<notin> path_up ` set
                (new_uploads this (snd (loadFromFileSystem env this (log_scenario e m))))"
    if ig: "ignores env (RulesText ''*.log'') ''error.log''"
      and ni: "\<not> ignores env (RulesText ''*.log'') ''main.ts''"
      and ok: "\<forall>log c. fs_throws env log c = None"
  proof -
    let ?u = "snd (loadFromFileSystem env this (log_scenario e m))"
    have r': "gitignore_rules (log_scenario e m) = RulesText ''*.log''"
      by (simp add: gitignore_rules_def log_scenario_def)
    have "extends env (RulesText ''*.log'') this ?u"
      using load_extends [of env "log_scenario e m" this] by (simp add: r')
    note n' = extends_new [OF this]
    from written_paths_respects [OF n'(3)] upload_paths_respect [OF n'(4)] ig
    have "''error.log'' \<notin> set (written_paths (new_calls this ?u))"
      and "''error.log'' \<notin> path_up ` set (new_uploads this ?u)"
      by blast+
    with log_scenario_import [OF ig ni ok] show ?thesis by blast
  qed
  from a n(1) n(2) n(3) b c show ?thesis by blast
qed

theorem C8_gitignore_rules_exclude_witness:
  "find (\<lambda>e. handle_name e = ''.gitignore'') (handle_values (log_scenario ''boom'' ''main''))
     = Some (FileHandle ''.gitignore'' ''*.log'')
   \<and> ignores sample_env (RulesText ''*.log'') ''error.log''
   \<and> \<not> ignores sample_env (RulesText ''*.log'') ''main.ts''
   \<and> fst (loadFromFileSystem sample_env work_store (log_scenario ''boom'' ''main'')) = Inr ()
   \<and> writeFile ''main.ts'' ''main''
        \<in> set (new_calls work_store (snd (loadFromFileSystem sample_env work_store (log_scenario ''boom'' ''main''))))
   \<and> ''error.log'' \<notin> set (written_paths
         (new_calls work_store (snd (loadFromFileSystem sample_env work_store (log_scenario ''boom'' ''main'')))))
   \<and> ''error.log'' \<notin> path_up ` set
         (new_uploads work_store (snd (loadFromFileSystem sample_env work_store (log_scenario ''boom'' ''main''))))
   \<and> fs_log (webcontainer (snd (loadFromFileSystem sample_env work_store (log_scenario ''boom'' ''main''))))
       = [writeFile ''.gitignore'' ''*.log'', writeFile ''main.ts'' ''main'']
   \<and> map path_up (uploadedFiles (snd (loadFromFileSystem sample_env work_store (log_scenario ''boom'' ''main''))))
       = [''.gitignore'', ''main.ts'']"
proof -
  have h: "find (\<lambda>e. handle_name e = ''.gitignore'') (handle_values (log_scenario ''boom'' ''main''))
     = Some (FileHandle ''.gitignore'' ''*.log'')"
    by (simp add: log_scenario_def)
  have i: "ignores sample_env (RulesText ''*.log'') ''error.log''"
    by (simp add: sample_env_def sample_ignores_def sample_matches_def)
  have j: "\<not> ignores sample_env (RulesText ''*.log'') ''main.ts''"
    by (simp add: sample_env_def sample_ignores_def sample_matches_def)
  have k: "\<forall>log c. fs_throws sample_env log c = None"
    by (simp add: sample_env_def)
  have l: "fs_log (webcontainer (snd (loadFromFileSystem sample_env work_store (log_scenario ''boom'' ''main''))))
       = [writeFile ''.gitignore'' ''*.log'', writeFile ''main.ts'' ''main'']"
    "map path_up (uploadedFiles (snd (loadFromFileSystem sample_env work_store (log_scenario ''boom'' ''main''))))
       = [''.gitignore'', ''main.ts'']"
    by (simp_all add: loadFromFileSystem_def log_scenario_def gitignore_rules_def entry_path_def
        fs_await_def Let_def sample_env_def sample_ignores_def sample_matches_def sample_dirname_def
        work_store_def new_FilesStore_def sample_container_def)
  from C8_gitignore_rules_exclude [OF h, of sample_env work_store "''boom''" "''main''"] h i j k l
  show ?thesis by blast
qed

end
